theory Spec2Isabelle
  imports Complex_Main "HOL-Library.Word"
begin

section \<open>JavaScript values used by the recipe scaling code\<close>

subsection \<open>Numbers\<close>

text \<open>
  A JavaScript number is a finite value, one of the two infinities, or NaN. Finite values
  are modelled as reals with exact arithmetic: the rounding of IEEE doubles, overflow to
  an infinity and the sign of zero are not part of the model. The operators below follow
  the ECMAScript rules for the special values. Where a property fixes a text that the
  page shows, or compares two computed factors, it takes the computed number as a
  hypothesis, so that it holds for the value that the code computes, whatever its rounding.
\<close>

datatype number = Fin real | PInf | NInf | NaN

fun js_negative :: "number \<Rightarrow> bool" where
  "js_negative (Fin a) = (a < 0)"
| "js_negative NInf = True"
| "js_negative PInf = False"
| "js_negative NaN = False"

fun js_add :: "number \<Rightarrow> number \<Rightarrow> number" where
  "js_add NaN y = NaN"
| "js_add x NaN = NaN"
| "js_add (Fin a) (Fin b) = Fin (a + b)"
| "js_add PInf NInf = NaN"
| "js_add NInf PInf = NaN"
| "js_add PInf y = PInf"
| "js_add NInf y = NInf"
| "js_add (Fin a) y = y"

fun js_mul :: "number \<Rightarrow> number \<Rightarrow> number" where
  "js_mul NaN y = NaN"
| "js_mul x NaN = NaN"
| "js_mul (Fin a) (Fin b) = Fin (a * b)"
| "js_mul x y =
     (if x = Fin 0 \<or> y = Fin 0 then NaN
      else if js_negative x = js_negative y then PInf else NInf)"

fun js_div :: "number \<Rightarrow> number \<Rightarrow> number" where
  "js_div NaN y = NaN"
| "js_div x NaN = NaN"
| "js_div (Fin a) (Fin b) =
     (if b = 0 then (if a = 0 then NaN else if a < 0 then NInf else PInf)
      else Fin (a / b))"
| "js_div (Fin a) y = Fin 0"
| "js_div x (Fin b) = (if js_negative x = (b < 0) then PInf else NInf)"
| "js_div x y = NaN"

text \<open>\<open>js_lt x y\<close> is \<open>x < y\<close>; every comparison with NaN is false.\<close>

fun js_lt :: "number \<Rightarrow> number \<Rightarrow> bool" where
  "js_lt NaN y = False"
| "js_lt x NaN = False"
| "js_lt (Fin a) (Fin b) = (a < b)"
| "js_lt x NInf = False"
| "js_lt PInf y = False"
| "js_lt NInf y = True"
| "js_lt (Fin a) PInf = True"

definition js_gt :: "number \<Rightarrow> number \<Rightarrow> bool" where
  "js_gt x y = js_lt y x"

definition js_le :: "number \<Rightarrow> number \<Rightarrow> bool" where
  "js_le x y = (x \<noteq> NaN \<and> y \<noteq> NaN \<and> \<not> js_lt y x)"

text \<open>ToBoolean on a number: \<open>0\<close> and NaN are falsy.\<close>

fun truthy :: "number \<Rightarrow> bool" where
  "truthy (Fin a) = (a \<noteq> 0)"
| "truthy NaN = False"
| "truthy x = True"

text \<open>\<open>x || d\<close> on numbers.\<close>

definition num_or :: "number \<Rightarrow> number \<Rightarrow> number" where
  "num_or x d = (if truthy x then x else d)"

text \<open>\<open>Math.pow\<close> for the non-negative integer exponents the code uses.\<close>

fun Math_pow :: "number \<Rightarrow> nat \<Rightarrow> number" where
  "Math_pow x 0 = Fin 1"
| "Math_pow x (Suc n) = js_mul x (Math_pow x n)"

text \<open>\<open>Math.PI\<close> is the double nearest to \<open>\<pi>\<close>; this is its exact value.\<close>

definition PI_value :: real where
  "PI_value = 884279719003555 / 281474976710656"

definition Math_PI :: number where
  "Math_PI = Fin PI_value"

section \<open>Mold volumes and the mold factor\<close>

text \<open>
  The state objects \<open>sourceMold\<close> and \<open>targetMold\<close> of \<open>App\<close>:
  \<open>{ type, diameter, height, length, width }\<close>.
\<close>

datatype mold_type = circular | rectangular

record mold =
  type_mold :: mold_type
  diameter :: number
  height :: number
  length_mold :: number
  width :: number

definition getVolume :: "mold \<Rightarrow> number" where
  "getVolume m =
     (if type_mold m = circular
      then js_mul (js_mul Math_PI (Math_pow (js_div (diameter m) (Fin 2)) 2))
                  (num_or (height m) (Fin 1))
      else js_mul (js_mul (length_mold m) (width m)) (num_or (height m) (Fin 1)))"


section \<open>Strings, parsing and rendered text\<close>

subsection \<open>Strings\<close>

text \<open>A JavaScript string is a sequence of UTF-16 code units.\<close>

type_synonym jschar = "16 word"
type_synonym jsstring = "jschar list"

definition utf16 :: "string \<Rightarrow> jsstring" where
  "utf16 s = map of_char s"

text \<open>\<open>a || d\<close> on an optional string: \<open>undefined\<close> and the empty string are falsy.\<close>

definition str_or :: "jsstring option \<Rightarrow> jsstring \<Rightarrow> jsstring" where
  "str_or a d = (case a of None \<Rightarrow> d | Some s \<Rightarrow> if s = [] then d else s)"

text \<open>\<open>a || []\<close> on an optional array (an array, even an empty one, is truthy).\<close>

definition list_or_empty :: "'a list option \<Rightarrow> 'a list" where
  "list_or_empty a = (case a of None \<Rightarrow> [] | Some xs \<Rightarrow> xs)"

subsection \<open>parseFloat\<close>

text \<open>
  ECMAScript \<open>parseFloat\<close>: leading white space is skipped, then the longest prefix
  that is a \<open>StrDecimalLiteral\<close> is read (an optional sign, then \<open>Infinity\<close> or decimal
  digits with an optional fraction and an optional exponent); the rest of the string is
  ignored. Without such a prefix the result is NaN. The result here is the exact value of
  the decimal literal, where the code has the double nearest to it.
\<close>

definition isWhiteSpace :: "jschar \<Rightarrow> bool" where
  "isWhiteSpace c =
     (c \<in> set [0x9, 0xA, 0xB, 0xC, 0xD, 0x20, 0xA0, 0x1680, 0x2028, 0x2029, 0x202F,
                0x205F, 0x3000, 0xFEFF]
      \<or> (0x2000 \<le> c \<and> c \<le> 0x200A))"

definition isDigit :: "jschar \<Rightarrow> bool" where
  "isDigit c = (0x30 \<le> c \<and> c \<le> 0x39)"

definition digitsValue :: "jsstring \<Rightarrow> nat" where
  "digitsValue ds = foldl (\<lambda>n c. 10 * n + (unat c - 48)) 0 ds"

definition signedDigits :: "int \<Rightarrow> jsstring \<Rightarrow> int" where
  "signedDigits sg s =
     (let ds = takeWhile isDigit s in if ds = [] then 0 else sg * int (digitsValue ds))"

text \<open>
  The value of the \<open>ExponentPart\<close> at the start of a string, \<open>0\<close> when there is none
  (an \<open>e\<close> that no digit follows is not part of the literal).
\<close>

definition exponentPart :: "jsstring \<Rightarrow> int" where
  "exponentPart s =
     (case s of
        [] \<Rightarrow> 0
      | e # r \<Rightarrow>
          if e = 0x65 \<or> e = 0x45 then
            (case r of
               [] \<Rightarrow> 0
             | c # r' \<Rightarrow>
                 if c = 0x2B then signedDigits 1 r'
                 else if c = 0x2D then signedDigits (- 1) r'
                 else signedDigits 1 r)
          else 0)"

definition pow10 :: "int \<Rightarrow> real" where
  "pow10 e = (if 0 \<le> e then 10 ^ nat e else 1 / 10 ^ nat (- e))"

definition strUnsignedDecimalLiteral :: "jsstring \<Rightarrow> number" where
  "strUnsignedDecimalLiteral s =
     (if take 8 s = utf16 ''Infinity'' then PInf
      else
        let ip = takeWhile isDigit s; r1 = dropWhile isDigit s
        in case r1 of
             [] \<Rightarrow> if ip = [] then NaN else Fin (real (digitsValue ip))
           | c # r2 \<Rightarrow>
               if c = 0x2E then
                 (let fp = takeWhile isDigit r2; r3 = dropWhile isDigit r2
                  in if ip = [] \<and> fp = [] then NaN
                     else Fin ((real (digitsValue ip)
                                + real (digitsValue fp) / 10 ^ length fp)
                               * pow10 (exponentPart r3)))
               else if ip = [] then NaN
               else Fin (real (digitsValue ip) * pow10 (exponentPart r1)))"

fun js_neg :: "number \<Rightarrow> number" where
  "js_neg (Fin a) = Fin (- a)"
| "js_neg PInf = NInf"
| "js_neg NInf = PInf"
| "js_neg NaN = NaN"

definition parseFloat :: "jsstring \<Rightarrow> number" where
  "parseFloat s =
     (let t = dropWhile isWhiteSpace s
      in case t of
           [] \<Rightarrow> NaN
         | c # r \<Rightarrow>
             if c = 0x2D then js_neg (strUnsignedDecimalLiteral r)
             else if c = 0x2B then strUnsignedDecimalLiteral r
             else strUnsignedDecimalLiteral t)"

subsection \<open>Number.prototype.toFixed and rendered text\<close>

text \<open>
  Text on the page is either a string that the model spells out, or the text
  \<open>String(x)\<close> of a number \<open>x\<close>, which is how a number placed in the markup is shown
  and what \<open>toFixed\<close> returns for a value that is not finite or is \<open>10\<^sup>2\<^sup>1\<close>
  or more in magnitude. The digits of \<open>String(x)\<close> are not spelled out.
\<close>

datatype rendering = Text jsstring | NumberText number

fun decimal_digits :: "nat \<Rightarrow> jsstring" where
  "decimal_digits n =
     (if n < 10 then [0x30 + of_nat n]
      else decimal_digits (n div 10) @ [0x30 + of_nat (n mod 10)])"

text \<open>
  \<open>x.toFixed(f)\<close>: the integer \<open>n\<close> for which \<open>n / 10\<^sup>f\<close> is closest to \<open>|x|\<close>, the
  larger one on a tie, written with \<open>f\<close> digits after the point and the sign in front.
\<close>

definition toFixed :: "nat \<Rightarrow> number \<Rightarrow> rendering" where
  "toFixed f x =
     (case x of
        Fin r \<Rightarrow>
          if 10 ^ 21 \<le> \<bar>r\<bar> then NumberText x
          else
            let n = nat \<lfloor>\<bar>r\<bar> * 10 ^ f + 1 / 2\<rfloor>;
                m = decimal_digits n;
                m = (if f = 0 then m
                     else let z = replicate (f + 1 - length m) 0x30 @ m;
                              k = length z
                          in take (k - f) z @ [0x2E] @ drop (k - f) z)
            in Text ((if r < 0 then [0x2D] else []) @ m)
      | _ \<Rightarrow> NumberText x)"

text \<open>
  \<open>.replace(/\.0$/, '')\<close>. It is applied to results of \<open>toFixed\<close> only; where that is
  \<open>String(x)\<close>, the text is \<open>NaN\<close>, an infinity or in exponent notation and does not end
  in \<open>.0\<close>.
\<close>

definition replace_dot_zero :: "rendering \<Rightarrow> rendering" where
  "replace_dot_zero t =
     (case t of
        Text s \<Rightarrow>
          if 2 \<le> length s \<and> drop (length s - 2) s = [0x2E, 0x30]
          then Text (take (length s - 2) s) else Text s
      | NumberText x \<Rightarrow> NumberText x)"

section \<open>Ingredient sections\<close>

datatype amount_value = AmtNumber number | AmtString jsstring

record Ingredient =
  name :: jsstring
  amount :: amount_value
  unit :: jsstring
  isFlour :: bool

text \<open>The strings of the source that are not ASCII, as code units.\<close>

definition label_total_flour :: jsstring where
  "label_total_flour = [0x7E3D, 0x7C89, 0x91CF]"

definition label_main_ingredient :: jsstring where
  "label_main_ingredient = [0x4E3B, 0x98DF, 0x6750]"

definition sentinel_to_taste :: jsstring where
  "sentinel_to_taste = [0x9069, 0x91CF]"

definition sentinel_a_pinch :: jsstring where
  "sentinel_a_pinch = [0x5C11, 0x8A31]"

subsection \<open>The base of a section (\<open>localBase\<close>)\<close>

text \<open>The three variables that the \<open>forEach\<close> loop updates.\<close>

record base_vars =
  flourTotal :: number
  maxWeight :: number
  maxName :: jsstring

definition amt :: "Ingredient \<Rightarrow> number" where
  "amt ing =
     (case amount ing of
        AmtNumber n \<Rightarrow> n
      | AmtString s \<Rightarrow> num_or (parseFloat s) (Fin 0))"

definition base_step :: "base_vars \<Rightarrow> Ingredient \<Rightarrow> base_vars" where
  "base_step v ing =
     (let v1 = (if isFlour ing then v\<lparr>flourTotal := js_add (flourTotal v) (amt ing)\<rparr>
                else v)
      in if js_gt (amt ing) (maxWeight v1)
         then v1\<lparr>maxWeight := amt ing, maxName := name ing\<rparr>
         else v1)"

fun base_loop :: "base_vars \<Rightarrow> Ingredient list \<Rightarrow> base_vars" where
  "base_loop v [] = v"
| "base_loop v (ing # rest) = base_loop (base_step v ing) rest"

record local_base =
  weight :: number
  base_name :: jsstring

definition localBase :: "Ingredient list \<Rightarrow> local_base" where
  "localBase ingredients =
     (let v = base_loop \<lparr>flourTotal = Fin 0, maxWeight = Fin 0, maxName = []\<rparr> ingredients
      in if js_gt (flourTotal v) (Fin 0)
         then \<lparr>weight = flourTotal v, base_name = label_total_flour\<rparr>
         else \<lparr>weight = num_or (maxWeight v) (Fin 1),
               base_name = (if maxName v = [] then label_main_ingredient else maxName v)\<rparr>)"

subsection \<open>One line of a section\<close>

definition numericAmt :: "Ingredient \<Rightarrow> number" where
  "numericAmt ing =
     (case amount ing of
        AmtNumber n \<Rightarrow> n
      | AmtString s \<Rightarrow> (let parsed = parseFloat s in if parsed = NaN then Fin 0 else parsed))"

definition hasValidAmt :: "Ingredient \<Rightarrow> bool" where
  "hasValidAmt ing = js_gt (numericAmt ing) (Fin 0)"

text \<open>How the markup shows \<open>ing.amount\<close> itself: a string as it is, a number as \<open>String(x)\<close>.\<close>

definition render_amount :: "amount_value \<Rightarrow> rendering" where
  "render_amount a = (case a of AmtString s \<Rightarrow> Text s | AmtNumber x \<Rightarrow> NumberText x)"

definition scaledAmount :: "Ingredient \<Rightarrow> number \<Rightarrow> rendering" where
  "scaledAmount ing scalingFactor =
     (if hasValidAmt ing
      then replace_dot_zero (toFixed 1 (js_mul (numericAmt ing) scalingFactor))
      else render_amount (amount ing))"

definition shouldHideUnit :: "Ingredient \<Rightarrow> bool" where
  "shouldHideUnit ing =
     (case amount ing of
        AmtString s \<Rightarrow> s = sentinel_to_taste \<or> s = sentinel_a_pinch
      | AmtNumber x \<Rightarrow> False)"

text \<open>
  The percentage cell of a line: the text of the percentage (the markup appends \<open>%\<close>),
  an empty spacer, or nothing.
\<close>

datatype percent_cell = Percent rendering | Spacer | NoCell

definition percentCell :: "local_base \<Rightarrow> bool \<Rightarrow> bool \<Rightarrow> Ingredient \<Rightarrow> percent_cell" where
  "percentCell base isBaking showPercentage ing =
     (if isBaking \<and> showPercentage \<and> js_gt (weight base) (Fin 0)
      then (if hasValidAmt ing
            then Percent (toFixed 1 (js_mul (js_div (numericAmt ing) (weight base)) (Fin 100)))
            else Spacer)
      else NoCell)"

record line =
  line_name :: jsstring
  line_isFlour :: bool
  line_amount :: rendering
  line_unit :: "jsstring option"
  line_percent :: percent_cell

definition ingredient_line ::
  "local_base \<Rightarrow> bool \<Rightarrow> bool \<Rightarrow> number \<Rightarrow> Ingredient \<Rightarrow> line" where
  "ingredient_line base isBaking showPercentage scalingFactor ing =
     \<lparr>line_name = name ing,
      line_isFlour = isFlour ing,
      line_amount = scaledAmount ing scalingFactor,
      line_unit = (if shouldHideUnit ing then None else Some (unit ing)),
      line_percent = percentCell base isBaking showPercentage ing\<rparr>"

subsection \<open>The component \<open>DisplayIngredientSection\<close>\<close>

text \<open>
  What the component shows: its title, the name of the base in the header (only for a
  baking recipe with percentages on), and one line for each ingredient. For an empty list
  the component returns \<open>null\<close>.
\<close>

record section_view =
  title :: jsstring
  header_base :: "jsstring option"
  lines :: "line list"

definition DisplayIngredientSection ::
  "Ingredient list \<Rightarrow> jsstring \<Rightarrow> bool \<Rightarrow> bool \<Rightarrow> number \<Rightarrow> section_view option" where
  "DisplayIngredientSection ingredients ttl isBaking showPercentage scalingFactor =
     (if ingredients = [] then None
      else
        let base = localBase ingredients
        in Some \<lparr>title = ttl,
                 header_base = (if isBaking \<and> showPercentage then Some (base_name base)
                                else None),
                 lines = map (ingredient_line base isBaking showPercentage scalingFactor)
                             ingredients\<rparr>)"

section \<open>The scaling view\<close>

text \<open>
  The fields of a \<open>Recipe\<close> that the scaling view reads. Optional fields of the
  interface are options; \<open>scalingRecipe\<close> is \<open>undefined\<close> (here \<open>None\<close>) while no
  recipe is selected.
\<close>

record Recipe =
  quantity :: "number option"
  ingredients :: "Ingredient list"
  mainSectionName :: "jsstring option"
  liquidStarterName :: "jsstring option"
  liquidStarterIngredients :: "Ingredient list option"
  fillingIngredients :: "Ingredient list option"
  decorationIngredients :: "Ingredient list option"
  customSectionName :: "jsstring option"
  customSectionIngredients :: "Ingredient list option"
  sectionsOrder :: "jsstring list option"
  isBakingRecipe :: bool

definition scalingFactor :: "Recipe option \<Rightarrow> number \<Rightarrow> number" where
  "scalingFactor scalingRecipe targetQuantity =
     (case scalingRecipe of
        None \<Rightarrow> Fin 1
      | Some r \<Rightarrow>
          (case quantity r of
             None \<Rightarrow> Fin 1
           | Some q \<Rightarrow> if \<not> truthy q then Fin 1 else js_div targetQuantity q))"

definition title_main :: jsstring where
  "title_main = [0x4E3B, 0x9EB5, 0x5718]"

definition title_starter :: jsstring where
  "title_starter = [0x767C, 0x9175, 0x7A2E]"

definition title_filling_fixed :: jsstring where
  "title_filling_fixed = [0x5167, 0x9921, 0x20, 0x28, 0x56FA, 0x5B9A, 0x91CF, 0x29]"

definition title_decoration_fixed :: jsstring where
  "title_decoration_fixed =
     [0x88DD, 0x98FE, 0x20, 0x2F, 0x20, 0x8868, 0x9762, 0x20, 0x28, 0x56FA, 0x5B9A, 0x91CF, 0x29]"

definition title_custom :: jsstring where
  "title_custom = [0x5176, 0x4ED6, 0x5340, 0x584A]"

definition suffix_fixed :: jsstring where
  "suffix_fixed = [0x20, 0x28, 0x56FA, 0x5B9A, 0x91CF, 0x29]"

definition DEFAULT_SECTIONS_ORDER :: "jsstring list" where
  "DEFAULT_SECTIONS_ORDER =
     [utf16 ''liquidStarterIngredients'', utf16 ''ingredients'', utf16 ''fillingIngredients'',
      utf16 ''decorationIngredients'', utf16 ''customSectionIngredients'']"

text \<open>The callback of \<open>scalingRecipe.sectionsOrder?.map\<close> in the scaling view.\<close>

definition scaling_section :: "Recipe \<Rightarrow> number \<Rightarrow> jsstring \<Rightarrow> section_view option" where
  "scaling_section scalingRecipe factor secKey =
     (if secKey = utf16 ''ingredients'' then
        DisplayIngredientSection (ingredients scalingRecipe)
          (str_or (mainSectionName scalingRecipe) title_main)
          (isBakingRecipe scalingRecipe) True factor
      else if secKey = utf16 ''liquidStarterIngredients'' then
        DisplayIngredientSection (list_or_empty (liquidStarterIngredients scalingRecipe))
          (str_or (liquidStarterName scalingRecipe) title_starter)
          (isBakingRecipe scalingRecipe) True factor
      else if secKey = utf16 ''fillingIngredients'' then
        DisplayIngredientSection (list_or_empty (fillingIngredients scalingRecipe))
          title_filling_fixed (isBakingRecipe scalingRecipe) False (Fin 1)
      else if secKey = utf16 ''decorationIngredients'' then
        DisplayIngredientSection (list_or_empty (decorationIngredients scalingRecipe))
          title_decoration_fixed (isBakingRecipe scalingRecipe) False (Fin 1)
      else if secKey = utf16 ''customSectionIngredients'' then
        DisplayIngredientSection (list_or_empty (customSectionIngredients scalingRecipe))
          (str_or (customSectionName scalingRecipe) title_custom @ suffix_fixed)
          (isBakingRecipe scalingRecipe) False (Fin 1)
      else None)"

text \<open>
  The list of sections of the scaling view, for the selected recipe and the target
  quantity: each section is drawn with \<open>scalingFactor\<close> or with the constant \<open>1\<close>.
\<close>

definition scaling_view :: "Recipe \<Rightarrow> number \<Rightarrow> section_view option list" where
  "scaling_view scalingRecipe targetQuantity =
     (case sectionsOrder scalingRecipe of
        None \<Rightarrow> []
      | Some order \<Rightarrow>
          map (scaling_section scalingRecipe (scalingFactor (Some scalingRecipe) targetQuantity))
              order)"

section \<open>Notions used to state the properties\<close>

text \<open>
  Partial sums of the series of the inverse tangent, to compare \<open>Math.PI\<close> with \<open>\<pi>\<close>.
\<close>

definition arctan_sum :: "real \<Rightarrow> nat \<Rightarrow> real" where
  "arctan_sum x n = (\<Sum>i<n. (- 1) ^ i * (1 / real (i * 2 + 1) * x ^ (i * 2 + 1)))"



text \<open>The sum of the amounts of the ingredients that are flagged as flour.\<close>

definition flour_sum :: "Ingredient list \<Rightarrow> number" where
  "flour_sum ings = foldl js_add (Fin 0) (map amt (filter isFlour ings))"

text \<open>
  In the list \<open>pre @ ing # post\<close>, the ingredient \<open>ing\<close> is the heaviest one and the
  first of that weight: its amount is greater than \<open>0\<close>, no amount is greater, and no
  earlier amount is equal.
\<close>

definition first_heaviest :: "Ingredient list \<Rightarrow> Ingredient \<Rightarrow> Ingredient list \<Rightarrow> bool" where
  "first_heaviest pre ing post =
     (js_gt (amt ing) (Fin 0)
      \<and> (\<forall>x\<in>set pre. \<not> js_gt (amt x) (amt ing) \<and> amt x \<noteq> amt ing)
      \<and> (\<forall>x\<in>set post. \<not> js_gt (amt x) (amt ing)))"

text \<open>
  Rounding to one decimal place: \<open>tenths r\<close> is the number of tenths nearest to \<open>|r|\<close>
  (the larger one on a tie), \<open>fixed_one r\<close> is the numeral with one digit after the
  point, and \<open>one_decimal r\<close> is that numeral without a trailing \<open>.0\<close>.
\<close>

definition tenths :: "real \<Rightarrow> nat" where
  "tenths r = nat \<lfloor>\<bar>r\<bar> * 10 + 1 / 2\<rfloor>"

definition fixed_one :: "real \<Rightarrow> jsstring" where
  "fixed_one r =
     (if r < 0 then [0x2D] else []) @ decimal_digits (tenths r div 10)
     @ [0x2E, 0x30 + of_nat (tenths r mod 10)]"

definition one_decimal :: "real \<Rightarrow> jsstring" where
  "one_decimal r =
     (if r < 0 then [0x2D] else []) @ decimal_digits (tenths r div 10)
     @ (if tenths r mod 10 = 0 then [] else [0x2E, 0x30 + of_nat (tenths r mod 10)])"


text \<open>The amounts that a section shows, line by line; none for a section that is not drawn.\<close>

definition shown_amounts :: "section_view option \<Rightarrow> rendering list" where
  "shown_amounts v = (case v of None \<Rightarrow> [] | Some s \<Rightarrow> map line_amount (lines s))"

text \<open>
  The keys of the sections that are scaled and of the sections that are fixed, and the
  ingredients that a recipe holds under a key.
\<close>

definition is_scalable :: "jsstring \<Rightarrow> bool" where
  "is_scalable k = (k = utf16 ''ingredients'' \<or> k = utf16 ''liquidStarterIngredients'')"

definition is_fixed :: "jsstring \<Rightarrow> bool" where
  "is_fixed k = (k = utf16 ''fillingIngredients'' \<or> k = utf16 ''decorationIngredients''
      \<or> k = utf16 ''customSectionIngredients'')"

definition section_ingredients :: "Recipe \<Rightarrow> jsstring \<Rightarrow> Ingredient list" where
  "section_ingredients r k =
     (if k = utf16 ''ingredients'' then ingredients r
      else if k = utf16 ''liquidStarterIngredients'' then list_or_empty (liquidStarterIngredients r)
      else if k = utf16 ''fillingIngredients'' then list_or_empty (fillingIngredients r)
      else if k = utf16 ''decorationIngredients'' then list_or_empty (decorationIngredients r)
      else if k = utf16 ''customSectionIngredients'' then list_or_empty (customSectionIngredients r)
      else [])"

text \<open>Ingredients and recipes for the examples: amounts in grams, the default section order.\<close>

definition ingredient :: "string \<Rightarrow> amount_value \<Rightarrow> bool \<Rightarrow> Ingredient" where
  "ingredient n a fl = \<lparr>name = utf16 n, amount = a, unit = utf16 ''g'', isFlour = fl\<rparr>"

definition recipe_of :: "number option \<Rightarrow> Ingredient list \<Rightarrow> Ingredient list \<Rightarrow> Recipe" where
  "recipe_of q main filling =
     \<lparr>quantity = q, ingredients = main, mainSectionName = None, liquidStarterName = None,
      liquidStarterIngredients = None, fillingIngredients = Some filling,
      decorationIngredients = None, customSectionName = None,
      customSectionIngredients = None, sectionsOrder = Some DEFAULT_SECTIONS_ORDER,
      isBakingRecipe = True\<rparr>"

declare decimal_digits.simps [simp del]

section \<open>Properties of the number operations\<close>

lemma js_gt_irrefl: "\<not> js_gt x x"
  by (cases x) (simp_all add: js_gt_def)

lemma js_gt_trans: "js_gt a b \<Longrightarrow> js_gt b c \<Longrightarrow> js_gt a c"
  by (cases a; cases b; cases c) (simp_all add: js_gt_def)

lemma js_gt_asym: "js_gt a b \<Longrightarrow> \<not> js_gt b a"
  by (cases a; cases b) (simp_all add: js_gt_def)

lemma js_gt_below: "\<not> js_gt a m \<Longrightarrow> js_gt b m \<Longrightarrow> \<not> js_gt a b \<and> a \<noteq> b"
  by (cases a; cases b; cases m) (auto simp: js_gt_def)

lemma js_gt_zero_truthy: "js_gt x (Fin 0) \<Longrightarrow> truthy x"
  by (cases x) (simp_all add: js_gt_def)


subsection \<open>\<open>Math.PI\<close> and \<open>\<pi>\<close>\<close>

lemma arctan_sum_bounds:
  assumes "0 < x" "x \<le> 1"
  shows "arctan_sum x (2 * n) \<le> arctan x" "arctan x \<le> arctan_sum x (2 * n + 1)"
proof -
  let ?a = "\<lambda>n. 1 / real (n * 2 + 1) * x ^ (n * 2 + 1)"
  have x: "\<bar>x\<bar> \<le> 1"
    using assms by simp
  have "0 < ?a 0"
    using assms by simp
  with summable_Leibniz(2)[OF zeroseq_arctan_series[OF x] monoseq_arctan_series[OF x]]
  have "(\<Sum>i. (- 1) ^ i * ?a i) \<in> {\<Sum>i<2 * n. (- 1) ^ i * ?a i .. \<Sum>i<2 * n + 1. (- 1) ^ i * ?a i}"
    by blast
  then show "arctan_sum x (2 * n) \<le> arctan x" "arctan x \<le> arctan_sum x (2 * n + 1)"
    unfolding arctan_series[OF x] arctan_sum_def by simp_all
qed

lemma arctan_sum_Suc:
  "arctan_sum x (Suc n) = arctan_sum x n + (- 1) ^ n * (1 / real (n * 2 + 1) * x ^ (n * 2 + 1))"
  by (simp add: arctan_sum_def)

lemma arctan_sum_0: "arctan_sum x 0 = 0"
  by (simp add: arctan_sum_def)

lemma pi_machin: "pi = 16 * arctan (1 / 5) - 4 * arctan (1 / 239)"
  using machin by simp

lemma pi_near_PI_value: "\<bar>pi - PI_value\<bar> < 1 / 10 ^ 15"
proof -
  have a: "arctan_sum (1 / 5) (2 * 6) \<le> arctan (1 / 5)"
      "arctan (1 / 5) \<le> arctan_sum (1 / 5) (2 * 6 + 1)"
    by (rule arctan_sum_bounds; simp)+
  have b: "arctan_sum (1 / 239) (2 * 2) \<le> arctan (1 / 239)"
      "arctan (1 / 239) \<le> arctan_sum (1 / 239) (2 * 2 + 1)"
    by (rule arctan_sum_bounds; simp)+
  have lo: "PI_value - 1 / 10 ^ 15
      < 16 * arctan_sum (1 / 5) (2 * 6) - 4 * arctan_sum (1 / 239) (2 * 2 + 1)"
    by (simp add: PI_value_def eval_nat_numeral arctan_sum_Suc arctan_sum_0)
  have hi: "16 * arctan_sum (1 / 5) (2 * 6 + 1) - 4 * arctan_sum (1 / 239) (2 * 2)
      < PI_value + 1 / 10 ^ 15"
    by (simp add: PI_value_def eval_nat_numeral arctan_sum_Suc arctan_sum_0)
  define e :: real where "e = 1 / 10 ^ 15"
  have "PI_value - e < pi" "pi < PI_value + e"
    unfolding pi_machin e_def using a b lo hi by linarith+
  then have "\<bar>pi - PI_value\<bar> < e"
    by linarith
  then show ?thesis
    by (simp only: e_def)
qed

section \<open>Properties of the mold factor\<close>



lemma getVolume_circular:
  "getVolume \<lparr>type_mold = circular, diameter = Fin d, height = Fin h, length_mold = l, width = w\<rparr>
     = Fin (PI_value * (d / 2)\<^sup>2 * (if h = 0 then 1 else h))"
  by (simp add: getVolume_def Math_PI_def num_or_def power2_eq_square numeral_2_eq_2)

lemma getVolume_rectangular:
  "getVolume \<lparr>type_mold = rectangular, diameter = d, height = Fin h, length_mold = Fin l,
              width = Fin w\<rparr>
     = Fin (l * w * (if h = 0 then 1 else h))"
  by (simp add: getVolume_def num_or_def)


text \<open>
  Claim C5. The volume of a circular mold is \<open>Math.PI \<times> (diameter / 2)\<^sup>2 \<times> height\<close> and
  the volume of a rectangular mold is \<open>length \<times> width \<times> height\<close>, where a height that is
  unset (\<open>0\<close>) counts as \<open>1\<close>. The volume is \<open>0\<close> when the diameter, the length or the
  width is \<open>0\<close>. The constant \<open>Math.PI\<close> differs from \<open>\<pi>\<close> by less than
  \<open>10\<^sup>-\<^sup>1\<^sup>5\<close>. A circular mold of diameter \<open>15\<close> and height \<open>7.5\<close> has the volume
  \<open>1325.36\<close>, to two decimal places, with \<open>Math.PI\<close> as with \<open>\<pi>\<close>.
\<close>

theorem getVolume_formula:
  "getVolume \<lparr>type_mold = circular, diameter = Fin d, height = Fin h, length_mold = l, width = w\<rparr>
     = Fin (PI_value * (d / 2)\<^sup>2 * (if h = 0 then 1 else h))
   \<and> getVolume \<lparr>type_mold = rectangular, diameter = dd, height = Fin h, length_mold = Fin a,
                width = Fin b\<rparr>
     = Fin (a * b * (if h = 0 then 1 else h))
   \<and> getVolume \<lparr>type_mold = circular, diameter = Fin 0, height = Fin h, length_mold = l,
                width = w\<rparr> = Fin 0
   \<and> getVolume \<lparr>type_mold = rectangular, diameter = dd, height = Fin h, length_mold = Fin 0,
                width = Fin b\<rparr> = Fin 0
   \<and> getVolume \<lparr>type_mold = rectangular, diameter = dd, height = Fin h, length_mold = Fin a,
                width = Fin 0\<rparr> = Fin 0
   \<and> \<bar>pi - PI_value\<bar> < 1 / 10 ^ 15
   \<and> getVolume \<lparr>type_mold = circular, diameter = Fin 15, height = Fin 7.5, length_mold = Fin 0,
                width = Fin 0\<rparr> = Fin (PI_value * 421.875)
   \<and> \<bar>PI_value * 421.875 - 1325.36\<bar> < 0.005
   \<and> \<bar>pi * (15 / 2)\<^sup>2 * 7.5 - 1325.36\<bar> < 0.005"
proof -
  have v: "\<bar>PI_value * 421.875 - 1325.36\<bar> < 0.005"
    by (simp add: PI_value_def)
  have "\<bar>pi - PI_value\<bar> < 1 / 1000000000000000"
    using pi_near_PI_value by simp
  moreover have "PI_value * (3375 / 8) < 33134 / 25 + 1 / 250"
      "33134 / 25 - 1 / 250 < PI_value * (3375 / 8)"
    by (simp_all add: PI_value_def)
  ultimately have "\<bar>pi * (3375 / 8) - 33134 / 25\<bar> < 1 / 200"
    by linarith
  moreover have "pi * (15 / 2)\<^sup>2 * 7.5 - 1325.36 = pi * (3375 / 8) - 33134 / 25"
      "(0.005 :: real) = 1 / 200"
    by (simp_all add: power2_eq_square)
  ultimately have p: "\<bar>pi * (15 / 2)\<^sup>2 * 7.5 - 1325.36\<bar> < 0.005"
    by (simp only:)
  have g: "getVolume \<lparr>type_mold = circular, diameter = Fin 15, height = Fin 7.5,
      length_mold = Fin 0, width = Fin 0\<rparr> = Fin (PI_value * 421.875)"
    by (simp add: getVolume_circular power2_eq_square)
  show ?thesis
    by (intro conjI getVolume_circular getVolume_rectangular pi_near_PI_value v p g)
      (simp_all add: getVolume_circular getVolume_rectangular)
qed






section \<open>Properties of \<open>toFixed\<close>\<close>

lemma decimal_digits_nonempty: "decimal_digits n \<noteq> []"
  by (subst decimal_digits.simps) simp

lemma decimal_digits_split:
  "replicate (2 - length (decimal_digits n)) 0x30 @ decimal_digits n
     = decimal_digits (n div 10) @ [0x30 + of_nat (n mod 10)]"
proof (cases "n < 10")
  case True
  then have "decimal_digits n = [0x30 + of_nat n]" "decimal_digits (n div 10) = [0x30]"
    by (simp_all add: decimal_digits.simps)
  with True show ?thesis by (simp add: numeral_2_eq_2)
next
  case False
  then have d: "decimal_digits n = decimal_digits (n div 10) @ [0x30 + of_nat (n mod 10)]"
    by (subst decimal_digits.simps) simp
  have "1 \<le> length (decimal_digits (n div 10))"
    using decimal_digits_nonempty[of "n div 10"] by (cases "decimal_digits (n div 10)") simp_all
  then have "2 - length (decimal_digits n) = 0"
    by (simp add: d)
  then show ?thesis
    using d by simp
qed

lemma toFixed_one:
  assumes "\<bar>r\<bar> < 10 ^ 21"
  shows "toFixed 1 (Fin r) = Text (fixed_one r)"
proof -
  let ?n = "nat \<lfloor>\<bar>r\<bar> * 10 + 1 / 2\<rfloor>"
  let ?z = "replicate (2 - length (decimal_digits ?n)) 0x30 @ decimal_digits ?n"
  have z: "?z = decimal_digits (?n div 10) @ [0x30 + of_nat (?n mod 10)]"
    by (rule decimal_digits_split)
  have "take (length ?z - 1) ?z @ [0x2E] @ drop (length ?z - 1) ?z
      = decimal_digits (?n div 10) @ [0x2E, 0x30 + of_nat (?n mod 10)]"
    unfolding z by simp
  then show ?thesis
    using assms by (simp add: toFixed_def Let_def fixed_one_def tenths_def numeral_2_eq_2 del: replicate.simps)
qed

lemma digit_char_zero: "k < 10 \<Longrightarrow> (0x30 + of_nat k = (0x30 :: 16 word)) \<longleftrightarrow> k = 0"
proof -
  assume k: "k < 10"
  have "(of_nat k :: 16 word) = 0 \<longleftrightarrow> k = 0"
    using k by (auto simp: word_of_nat_eq_0_iff dvd_def)
  then show ?thesis by simp
qed

lemma replace_fixed_one: "replace_dot_zero (Text (fixed_one r)) = Text (one_decimal r)"
proof -
  let ?p = "(if r < 0 then [0x2D] else []) @ decimal_digits (tenths r div 10)"
  let ?d = "0x30 + of_nat (tenths r mod 10) :: 16 word"
  have f: "fixed_one r = ?p @ [0x2E, ?d]"
    by (simp add: fixed_one_def)
  have "?d = 0x30 \<longleftrightarrow> tenths r mod 10 = 0"
    by (rule digit_char_zero) simp
  then show ?thesis
    unfolding f by (simp add: replace_dot_zero_def one_decimal_def)
qed


section \<open>Properties of the section base\<close>

lemma base_step_flourTotal:
  "flourTotal (base_step v ing) = (if isFlour ing then js_add (flourTotal v) (amt ing) else flourTotal v)"
  by (simp add: base_step_def Let_def)

lemma base_step_max:
  "maxWeight (base_step v ing) = (if js_gt (amt ing) (maxWeight v) then amt ing else maxWeight v)"
  "maxName (base_step v ing) = (if js_gt (amt ing) (maxWeight v) then name ing else maxName v)"
  by (simp_all add: base_step_def Let_def)

lemma base_loop_flourTotal:
  "flourTotal (base_loop v xs) = foldl js_add (flourTotal v) (map amt (filter isFlour xs))"
  by (induction xs arbitrary: v) (simp_all add: base_step_flourTotal)

lemma base_loop_max:
  "(maxWeight (base_loop v xs) = maxWeight v \<and> maxName (base_loop v xs) = maxName v
      \<and> (\<forall>x\<in>set xs. \<not> js_gt (amt x) (maxWeight v)))
   \<or> (\<exists>pre ing post. xs = pre @ ing # post
        \<and> maxWeight (base_loop v xs) = amt ing \<and> maxName (base_loop v xs) = name ing
        \<and> js_gt (amt ing) (maxWeight v)
        \<and> (\<forall>x\<in>set pre. \<not> js_gt (amt x) (amt ing) \<and> amt x \<noteq> amt ing)
        \<and> (\<forall>x\<in>set post. \<not> js_gt (amt x) (amt ing)))"
proof (induction xs arbitrary: v)
  case Nil
  then show ?case by simp
next
  case (Cons a xs)
  let ?v = "base_step v a"
  show ?case
  proof (cases "js_gt (amt a) (maxWeight v)")
    case True
    then have mw: "maxWeight ?v = amt a" and mn: "maxName ?v = name a"
      by (simp_all add: base_step_max)
    from Cons.IH[of ?v] show ?thesis
    proof
      assume "maxWeight (base_loop ?v xs) = maxWeight ?v \<and> maxName (base_loop ?v xs) = maxName ?v
        \<and> (\<forall>x\<in>set xs. \<not> js_gt (amt x) (maxWeight ?v))"
      then have "a # xs = [] @ a # xs \<and> maxWeight (base_loop v (a # xs)) = amt a
          \<and> maxName (base_loop v (a # xs)) = name a \<and> js_gt (amt a) (maxWeight v)
          \<and> (\<forall>x\<in>set []. \<not> js_gt (amt x) (amt a) \<and> amt x \<noteq> amt a)
          \<and> (\<forall>x\<in>set xs. \<not> js_gt (amt x) (amt a))"
        using True by (simp add: mw mn)
      then show ?thesis by blast
    next
      assume "\<exists>pre ing post. xs = pre @ ing # post
        \<and> maxWeight (base_loop ?v xs) = amt ing \<and> maxName (base_loop ?v xs) = name ing
        \<and> js_gt (amt ing) (maxWeight ?v)
        \<and> (\<forall>x\<in>set pre. \<not> js_gt (amt x) (amt ing) \<and> amt x \<noteq> amt ing)
        \<and> (\<forall>x\<in>set post. \<not> js_gt (amt x) (amt ing))"
      then obtain pre ing post where p: "xs = pre @ ing # post"
        "maxWeight (base_loop ?v xs) = amt ing" "maxName (base_loop ?v xs) = name ing"
        "js_gt (amt ing) (amt a)"
        "\<forall>x\<in>set pre. \<not> js_gt (amt x) (amt ing) \<and> amt x \<noteq> amt ing"
        "\<forall>x\<in>set post. \<not> js_gt (amt x) (amt ing)"
        unfolding mw by blast
      have "\<not> js_gt (amt a) (amt ing) \<and> amt a \<noteq> amt ing"
        using p(4) js_gt_asym js_gt_irrefl by metis
      moreover have "js_gt (amt ing) (maxWeight v)"
        using p(4) True by (rule js_gt_trans)
      ultimately have "a # xs = (a # pre) @ ing # post
          \<and> maxWeight (base_loop v (a # xs)) = amt ing
          \<and> maxName (base_loop v (a # xs)) = name ing \<and> js_gt (amt ing) (maxWeight v)
          \<and> (\<forall>x\<in>set (a # pre). \<not> js_gt (amt x) (amt ing) \<and> amt x \<noteq> amt ing)
          \<and> (\<forall>x\<in>set post. \<not> js_gt (amt x) (amt ing))"
        using p by simp
      then show ?thesis by blast
    qed
  next
    case False
    then have mw: "maxWeight ?v = maxWeight v" and mn: "maxName ?v = maxName v"
      by (simp_all add: base_step_max)
    from Cons.IH[of ?v] show ?thesis
    proof
      assume "maxWeight (base_loop ?v xs) = maxWeight ?v \<and> maxName (base_loop ?v xs) = maxName ?v
        \<and> (\<forall>x\<in>set xs. \<not> js_gt (amt x) (maxWeight ?v))"
      then show ?thesis
        using False by (simp add: mw mn)
    next
      assume "\<exists>pre ing post. xs = pre @ ing # post
        \<and> maxWeight (base_loop ?v xs) = amt ing \<and> maxName (base_loop ?v xs) = name ing
        \<and> js_gt (amt ing) (maxWeight ?v)
        \<and> (\<forall>x\<in>set pre. \<not> js_gt (amt x) (amt ing) \<and> amt x \<noteq> amt ing)
        \<and> (\<forall>x\<in>set post. \<not> js_gt (amt x) (amt ing))"
      then obtain pre ing post where p: "xs = pre @ ing # post"
        "maxWeight (base_loop ?v xs) = amt ing" "maxName (base_loop ?v xs) = name ing"
        "js_gt (amt ing) (maxWeight v)"
        "\<forall>x\<in>set pre. \<not> js_gt (amt x) (amt ing) \<and> amt x \<noteq> amt ing"
        "\<forall>x\<in>set post. \<not> js_gt (amt x) (amt ing)"
        unfolding mw by blast
      have "\<not> js_gt (amt a) (amt ing) \<and> amt a \<noteq> amt ing"
        using False p(4) by (rule js_gt_below)
      then have "a # xs = (a # pre) @ ing # post
          \<and> maxWeight (base_loop v (a # xs)) = amt ing
          \<and> maxName (base_loop v (a # xs)) = name ing \<and> js_gt (amt ing) (maxWeight v)
          \<and> (\<forall>x\<in>set (a # pre). \<not> js_gt (amt x) (amt ing) \<and> amt x \<noteq> amt ing)
          \<and> (\<forall>x\<in>set post. \<not> js_gt (amt x) (amt ing))"
        using p by simp
      then show ?thesis by blast
    qed
  qed
qed

lemma localBase_flour:
  assumes "js_gt (flour_sum ings) (Fin 0)"
  shows "localBase ings = \<lparr>weight = flour_sum ings, base_name = label_total_flour\<rparr>"
  using assms by (simp add: localBase_def Let_def base_loop_flourTotal flour_sum_def)

lemma localBase_no_flour:
  assumes "\<not> js_gt (flour_sum ings) (Fin 0)"
  shows "((\<forall>x\<in>set ings. \<not> js_gt (amt x) (Fin 0))
          \<and> localBase ings = \<lparr>weight = Fin 1, base_name = label_main_ingredient\<rparr>)
       \<or> (\<exists>pre ing post. ings = pre @ ing # post \<and> first_heaviest pre ing post
            \<and> localBase ings = \<lparr>weight = amt ing,
                 base_name = (if name ing = [] then label_main_ingredient else name ing)\<rparr>)"
proof -
  let ?init = "\<lparr>flourTotal = Fin 0, maxWeight = Fin 0, maxName = []\<rparr>"
  let ?v = "base_loop ?init ings"
  have lb: "localBase ings = \<lparr>weight = num_or (maxWeight ?v) (Fin 1),
      base_name = (if maxName ?v = [] then label_main_ingredient else maxName ?v)\<rparr>"
    using assms by (simp add: localBase_def Let_def base_loop_flourTotal flour_sum_def)
  have m: "(maxWeight ?v = Fin 0 \<and> maxName ?v = []
        \<and> (\<forall>x\<in>set ings. \<not> js_gt (amt x) (Fin 0)))
      \<or> (\<exists>pre ing post. ings = pre @ ing # post
          \<and> maxWeight ?v = amt ing \<and> maxName ?v = name ing
          \<and> js_gt (amt ing) (Fin 0)
          \<and> (\<forall>x\<in>set pre. \<not> js_gt (amt x) (amt ing) \<and> amt x \<noteq> amt ing)
          \<and> (\<forall>x\<in>set post. \<not> js_gt (amt x) (amt ing)))"
    using base_loop_max[of ?init ings] by simp
  from m show ?thesis
  proof (elim disjE conjE exE)
    assume e: "maxWeight ?v = Fin 0" "maxName ?v = []"
      "\<forall>x\<in>set ings. \<not> js_gt (amt x) (Fin 0)"
    have "localBase ings = \<lparr>weight = Fin 1, base_name = label_main_ingredient\<rparr>"
      by (simp add: lb e(1,2) num_or_def)
    with e(3) show ?thesis
      by blast
  next
    fix pre ing post
    assume p: "ings = pre @ ing # post"
        "maxWeight ?v = amt ing" "maxName ?v = name ing"
        "js_gt (amt ing) (Fin 0)"
        "\<forall>x\<in>set pre. \<not> js_gt (amt x) (amt ing) \<and> amt x \<noteq> amt ing"
        "\<forall>x\<in>set post. \<not> js_gt (amt x) (amt ing)"
    have "first_heaviest pre ing post"
      using p(4,5,6) by (simp add: first_heaviest_def)
    moreover have "localBase ings = \<lparr>weight = amt ing,
        base_name = (if name ing = [] then label_main_ingredient else name ing)\<rparr>"
      using js_gt_zero_truthy[OF p(4)] by (simp add: lb p(2,3) num_or_def)
    ultimately show ?thesis
      using p(1) by blast
  qed
qed

lemma localBase_weight_positive: "js_gt (weight (localBase ings)) (Fin 0)"
proof (cases "js_gt (flour_sum ings) (Fin 0)")
  case True
  then show ?thesis by (simp add: localBase_flour)
next
  case False
  from localBase_no_flour[OF False] show ?thesis
    by (auto simp: first_heaviest_def js_gt_def)
qed

lemma map2_same: "map2 g (map h xs) xs = map (\<lambda>x. g (h x) x) xs"
  by (induction xs) simp_all

lemma localBase_example_flour: "localBase [ingredient ''flour'' (AmtNumber (Fin 500)) True,
                  ingredient ''water'' (AmtNumber (Fin 350)) False]
       = \<lparr>weight = Fin 500, base_name = label_total_flour\<rparr>"
  by (simp add: localBase_def base_step_def ingredient_def amt_def js_gt_def)

lemma localBase_example_egg: "localBase [ingredient ''sugar'' (AmtNumber (Fin 100)) False,
                  ingredient ''egg'' (AmtNumber (Fin 120)) False]
       = \<lparr>weight = Fin 120, base_name = utf16 ''egg''\<rparr>"
  by (simp add: localBase_def base_step_def ingredient_def amt_def js_gt_def num_or_def utf16_def)

text \<open>
  Claim C1, as amended. The base of a section is computed from the ingredients of that
  section alone, and the header and the percentages of the section use that base. It is
  the sum of the amounts of the ingredients flagged as flour when that sum is greater than
  \<open>0\<close>, with the label "total flour". Otherwise it is the amount of the heaviest
  ingredient (the first one of that weight), labelled with that ingredient's name, or with
  "main ingredient" when that name is empty; when no amount is greater than \<open>0\<close> the
  base is \<open>1\<close> with the label "main ingredient". On flour \<open>500\<close> (flagged) and water
  \<open>350\<close> the base is \<open>500\<close>, "total flour"; on sugar \<open>100\<close> and egg \<open>120\<close>,
  neither flagged, it is \<open>120\<close>, "egg".
\<close>

theorem localBase_flour_or_heaviest:
  "(js_gt (flour_sum ings) (Fin 0)
      \<longrightarrow> localBase ings = \<lparr>weight = flour_sum ings, base_name = label_total_flour\<rparr>)
   \<and> (\<not> js_gt (flour_sum ings) (Fin 0)
      \<longrightarrow> ((\<forall>x\<in>set ings. \<not> js_gt (amt x) (Fin 0))
            \<and> localBase ings = \<lparr>weight = Fin 1, base_name = label_main_ingredient\<rparr>)
          \<or> (\<exists>pre ing post. ings = pre @ ing # post \<and> first_heaviest pre ing post
                \<and> localBase ings
                    = \<lparr>weight = amt ing,
                       base_name = (if name ing = [] then label_main_ingredient
                                    else name ing)\<rparr>))
   \<and> map_option header_base (DisplayIngredientSection ings ttl True True f)
       = (if ings = [] then None else Some (Some (base_name (localBase ings))))
   \<and> map_option (\<lambda>v. map line_percent (lines v)) (DisplayIngredientSection ings ttl ib sp f)
       = (if ings = [] then None else Some (map (percentCell (localBase ings) ib sp) ings))
   \<and> localBase [ingredient ''flour'' (AmtNumber (Fin 500)) True,
                 ingredient ''water'' (AmtNumber (Fin 350)) False]
       = \<lparr>weight = Fin 500, base_name = label_total_flour\<rparr>
   \<and> localBase [ingredient ''sugar'' (AmtNumber (Fin 100)) False,
                 ingredient ''egg'' (AmtNumber (Fin 120)) False]
       = \<lparr>weight = Fin 120, base_name = utf16 ''egg''\<rparr>"
proof (intro conjI impI)
  assume "js_gt (flour_sum ings) (Fin 0)"
  then show "localBase ings = \<lparr>weight = flour_sum ings, base_name = label_total_flour\<rparr>"
    by (rule localBase_flour)
next
  assume "\<not> js_gt (flour_sum ings) (Fin 0)"
  then show "((\<forall>x\<in>set ings. \<not> js_gt (amt x) (Fin 0))
            \<and> localBase ings = \<lparr>weight = Fin 1, base_name = label_main_ingredient\<rparr>)
          \<or> (\<exists>pre ing post. ings = pre @ ing # post \<and> first_heaviest pre ing post
                \<and> localBase ings
                    = \<lparr>weight = amt ing,
                       base_name = (if name ing = [] then label_main_ingredient
                                    else name ing)\<rparr>)"
    by (rule localBase_no_flour)
next
  show "map_option header_base (DisplayIngredientSection ings ttl True True f)
       = (if ings = [] then None else Some (Some (base_name (localBase ings))))"
    by (simp add: DisplayIngredientSection_def Let_def)
next
  show "map_option (\<lambda>v. map line_percent (lines v)) (DisplayIngredientSection ings ttl ib sp f)
       = (if ings = [] then None else Some (map (percentCell (localBase ings) ib sp) ings))"
    by (simp add: DisplayIngredientSection_def Let_def ingredient_line_def comp_def)
qed (rule localBase_example_flour localBase_example_egg)+

theorem localBase_flour_or_heaviest_witness:
  "js_gt (flour_sum [ingredient ''flour'' (AmtNumber (Fin 500)) True,
                      ingredient ''water'' (AmtString (utf16 ''350'')) False]) (Fin 0)
   \<and> localBase [ingredient ''flour'' (AmtNumber (Fin 500)) True,
                 ingredient ''water'' (AmtString (utf16 ''350'')) False]
       = \<lparr>weight = Fin 500, base_name = label_total_flour\<rparr>
   \<and> \<not> js_gt (flour_sum [ingredient ''sugar'' (AmtNumber (Fin 100)) False,
                          ingredient ''egg'' (AmtNumber (Fin 120)) False]) (Fin 0)
   \<and> (\<exists>pre ing post.
         [ingredient ''sugar'' (AmtNumber (Fin 100)) False,
          ingredient ''egg'' (AmtNumber (Fin 120)) False] = pre @ ing # post
         \<and> first_heaviest pre ing post
         \<and> localBase [ingredient ''sugar'' (AmtNumber (Fin 100)) False,
                       ingredient ''egg'' (AmtNumber (Fin 120)) False]
             = \<lparr>weight = amt ing,
                base_name = (if name ing = [] then label_main_ingredient else name ing)\<rparr>)"
proof -
  let ?a = "[ingredient ''flour'' (AmtNumber (Fin 500)) True,
             ingredient ''water'' (AmtString (utf16 ''350'')) False]"
  let ?b = "[ingredient ''sugar'' (AmtNumber (Fin 100)) False,
             ingredient ''egg'' (AmtNumber (Fin 120)) False]"
  have fa: "flour_sum ?a = Fin 500" and fb: "flour_sum ?b = Fin 0"
    by (simp_all add: flour_sum_def ingredient_def amt_def)
  have a: "js_gt (flour_sum ?a) (Fin 0)" and b: "\<not> js_gt (flour_sum ?b) (Fin 0)"
    by (simp_all add: fa fb js_gt_def)
  have pos: "\<not> (\<forall>x\<in>set ?b. \<not> js_gt (amt x) (Fin 0))"
    by (simp add: ingredient_def amt_def js_gt_def)
  have 1: "localBase ?a = \<lparr>weight = flour_sum ?a, base_name = label_total_flour\<rparr>"
    by (rule localBase_flour_or_heaviest[of ?a, THEN conjunct1, rule_format, OF a])
  have 2: "\<exists>pre ing post. ?b = pre @ ing # post \<and> first_heaviest pre ing post
      \<and> localBase ?b = \<lparr>weight = amt ing,
           base_name = (if name ing = [] then label_main_ingredient else name ing)\<rparr>"
    using localBase_flour_or_heaviest[of ?b, THEN conjunct2, THEN conjunct1, rule_format, OF b]
      pos by (elim disjE conjE) simp_all
  show ?thesis
    using a b 1 2 unfolding fa by (intro conjI)
qed

text \<open>
  Claim C1 as stated fails for a heaviest ingredient without a name: the label is then
  "main ingredient", not the (empty) name of the ingredient.
\<close>

theorem localBase_unnamed_heaviest:
  "localBase [ingredient [] (AmtNumber (Fin 5)) False]
     = \<lparr>weight = Fin 5, base_name = label_main_ingredient\<rparr>
   \<and> name (ingredient [] (AmtNumber (Fin 5)) False) = []
   \<and> label_main_ingredient \<noteq> []"
  by (simp add: localBase_def base_step_def ingredient_def amt_def js_gt_def num_or_def
      utf16_def label_main_ingredient_def)

text \<open>
  Claim C10. For every list of ingredients the weight of the section base is greater than
  \<open>0\<close>: it is the flour total, the amount of an ingredient, or \<open>1\<close>. It is
  neither \<open>0\<close> nor NaN, so the division for the percentage has a divisor other than
  \<open>0\<close>, and for a baking recipe with percentages on the guard on the base passes: a
  line shows its percentage when its amount is valid and an empty cell otherwise.
\<close>

theorem localBase_weight_is_positive:
  "js_gt (weight (localBase ings)) (Fin 0)
   \<and> weight (localBase ings) \<noteq> Fin 0
   \<and> weight (localBase ings) \<noteq> NaN
   \<and> (weight (localBase ings) = flour_sum ings
       \<or> (\<exists>ing\<in>set ings. weight (localBase ings) = amt ing)
       \<or> weight (localBase ings) = Fin 1)
   \<and> percentCell (localBase ings) True True ing
       = (if hasValidAmt ing
          then Percent (toFixed 1 (js_mul (js_div (numericAmt ing) (weight (localBase ings)))
                                          (Fin 100)))
          else Spacer)"
proof -
  have pos: "js_gt (weight (localBase ings)) (Fin 0)"
    by (rule localBase_weight_positive)
  then have nz: "weight (localBase ings) \<noteq> Fin 0" "weight (localBase ings) \<noteq> NaN"
    by (auto simp: js_gt_def)
  have src: "weight (localBase ings) = flour_sum ings
       \<or> (\<exists>ing\<in>set ings. weight (localBase ings) = amt ing)
       \<or> weight (localBase ings) = Fin 1"
  proof (cases "js_gt (flour_sum ings) (Fin 0)")
    case True
    then show ?thesis by (simp add: localBase_flour)
  next
    case False
    from localBase_no_flour[OF False] show ?thesis
      by auto
  qed
  show ?thesis
    using pos nz src by (simp add: percentCell_def)
qed

theorem localBase_weight_is_positive_witness:
  "js_gt (weight (localBase [])) (Fin 0)
   \<and> js_gt (weight (localBase [ingredient ''flour'' (AmtNumber (Fin 0)) True])) (Fin 0)
   \<and> js_gt (weight (localBase [ingredient ''salt'' (AmtString sentinel_to_taste) False])) (Fin 0)"
  by (intro conjI localBase_weight_is_positive[THEN conjunct1])

section \<open>Properties of the lines of a section\<close>

lemmas parse_defs = parseFloat_def utf16_def isWhiteSpace_def strUnsignedDecimalLiteral_def
  isDigit_def digitsValue_def exponentPart_def signedDigits_def pow10_def



lemma scaledAmount_valid:
  assumes "numericAmt ing = Fin a" "0 < a" "\<bar>a * f\<bar> < 10 ^ 21"
  shows "scaledAmount ing (Fin f) = Text (one_decimal (a * f))"
proof -
  have "hasValidAmt ing"
    using assms(1,2) by (simp add: hasValidAmt_def js_gt_def)
  then have "scaledAmount ing (Fin f) = replace_dot_zero (toFixed 1 (Fin (a * f)))"
    by (simp add: scaledAmount_def assms(1))
  then show ?thesis
    by (simp only: toFixed_one[OF assms(3)] replace_fixed_one)
qed



lemma percentCell_valid:
  assumes "weight base = Fin b" "0 < b" "numericAmt ing = Fin a" "0 < a" "a / b * 100 < 10 ^ 21"
  shows "percentCell base True True ing = Percent (Text (fixed_one (a / b * 100)))"
proof -
  have "hasValidAmt ing" "js_gt (weight base) (Fin 0)"
    using assms(1-4) by (simp_all add: hasValidAmt_def js_gt_def)
  then have "percentCell base True True ing = Percent (toFixed 1 (Fin (a / b * 100)))"
    using assms(2) by (simp add: percentCell_def assms(1,3))
  moreover have "\<bar>a / b * 100\<bar> < 10 ^ 21"
    using assms(2,4,5) by simp
  ultimately show ?thesis
    by (simp only: toFixed_one)
qed



lemma one_decimal_examples: "one_decimal 600 = utf16 ''600''" "one_decimal 1.3 = utf16 ''1.3''"
  by (simp_all add: one_decimal_def tenths_def utf16_def decimal_digits.simps)




lemma fixed_one_examples: "fixed_one 70 = utf16 ''70.0''" "fixed_one 100 = utf16 ''100.0''"
  by (simp_all add: fixed_one_def tenths_def utf16_def decimal_digits.simps)




text \<open>
  Claim C9. A section drawn with the factor \<open>f\<close> is the section drawn with the factor
  \<open>1\<close> in which only the amounts of the lines are replaced. The name of the base in
  the header and the percentage of every line are the same for every factor.
\<close>

theorem percentages_independent_of_factor:
  "DisplayIngredientSection ings ttl ib sp f
     = map_option
         (\<lambda>v. v\<lparr>lines := map2 (\<lambda>l ing. l\<lparr>line_amount := scaledAmount ing f\<rparr>) (lines v) ings\<rparr>)
         (DisplayIngredientSection ings ttl ib sp (Fin 1))
   \<and> map_option header_base (DisplayIngredientSection ings ttl ib sp f)
       = map_option header_base (DisplayIngredientSection ings ttl ib sp (Fin 1))
   \<and> map_option (\<lambda>v. map line_percent (lines v)) (DisplayIngredientSection ings ttl ib sp f)
       = map_option (\<lambda>v. map line_percent (lines v))
           (DisplayIngredientSection ings ttl ib sp (Fin 1))"
  by (simp add: DisplayIngredientSection_def Let_def map2_same ingredient_line_def comp_def)

theorem percentages_independent_of_factor_witness:
  "map_option (\<lambda>v. map line_percent (lines v))
     (DisplayIngredientSection
        [ingredient ''flour'' (AmtNumber (Fin 400)) True,
         ingredient ''water'' (AmtNumber (Fin 280)) False] (utf16 ''dough'') True True (Fin 1.5))
     = Some [Percent (Text (utf16 ''100.0'')), Percent (Text (utf16 ''70.0''))]
   \<and> map_option header_base
     (DisplayIngredientSection
        [ingredient ''flour'' (AmtNumber (Fin 400)) True,
         ingredient ''water'' (AmtNumber (Fin 280)) False] (utf16 ''dough'') True True (Fin 1.5))
     = Some (Some label_total_flour)"
proof -
  let ?ings = "[ingredient ''flour'' (AmtNumber (Fin 400)) True,
                ingredient ''water'' (AmtNumber (Fin 280)) False]"
  have b: "localBase ?ings = \<lparr>weight = Fin 400, base_name = label_total_flour\<rparr>"
    by (simp add: localBase_def base_step_def ingredient_def amt_def js_gt_def)
  have f: "percentCell \<lparr>weight = Fin 400, base_name = label_total_flour\<rparr> True True
      (ingredient ''flour'' (AmtNumber (Fin 400)) True) = Percent (Text (fixed_one (400 / 400 * 100)))"
    by (rule percentCell_valid) (simp_all add: numericAmt_def ingredient_def)
  have w: "percentCell \<lparr>weight = Fin 400, base_name = label_total_flour\<rparr> True True
      (ingredient ''water'' (AmtNumber (Fin 280)) False) = Percent (Text (fixed_one (280 / 400 * 100)))"
    by (rule percentCell_valid) (simp_all add: numericAmt_def ingredient_def)
  have p1: "map_option (\<lambda>v. map line_percent (lines v))
      (DisplayIngredientSection ?ings (utf16 ''dough'') True True (Fin 1))
      = Some [Percent (Text (utf16 ''100.0'')), Percent (Text (utf16 ''70.0''))]"
    using f w
    by (simp add: DisplayIngredientSection_def b Let_def ingredient_line_def fixed_one_examples)
  have h1: "map_option header_base
      (DisplayIngredientSection ?ings (utf16 ''dough'') True True (Fin 1))
      = Some (Some label_total_flour)"
    by (simp add: DisplayIngredientSection_def b Let_def)
  note t = percentages_independent_of_factor[of ?ings "utf16 ''dough''" True True "Fin 1.5"]
  show ?thesis
    unfolding t[THEN conjunct2, THEN conjunct1] t[THEN conjunct2, THEN conjunct2]
    using p1 h1 by (intro conjI)
qed

section \<open>Properties of the scaling view\<close>

lemma section_keys_distinct:
  "utf16 ''fillingIngredients'' \<noteq> utf16 ''ingredients''"
  "utf16 ''fillingIngredients'' \<noteq> utf16 ''liquidStarterIngredients''"
  "utf16 ''decorationIngredients'' \<noteq> utf16 ''ingredients''"
  "utf16 ''decorationIngredients'' \<noteq> utf16 ''liquidStarterIngredients''"
  "utf16 ''decorationIngredients'' \<noteq> utf16 ''fillingIngredients''"
  "utf16 ''customSectionIngredients'' \<noteq> utf16 ''ingredients''"
  "utf16 ''customSectionIngredients'' \<noteq> utf16 ''liquidStarterIngredients''"
  "utf16 ''customSectionIngredients'' \<noteq> utf16 ''fillingIngredients''"
  "utf16 ''customSectionIngredients'' \<noteq> utf16 ''decorationIngredients''"
  "utf16 ''liquidStarterIngredients'' \<noteq> utf16 ''ingredients''"
  by (simp_all add: utf16_def)

lemma shown_amounts_section:
  "shown_amounts (DisplayIngredientSection ings ttl ib sp f) = map (\<lambda>ing. scaledAmount ing f) ings"
  by (simp add: shown_amounts_def DisplayIngredientSection_def Let_def ingredient_line_def comp_def)

lemma shown_amounts_scaling_section:
  "shown_amounts (scaling_section r f k)
     = map (\<lambda>ing. scaledAmount ing (if is_scalable k then f else Fin 1)) (section_ingredients r k)"
  unfolding scaling_section_def section_ingredients_def is_scalable_def
  by (simp add: shown_amounts_section section_keys_distinct) (simp add: shown_amounts_def)

lemma scaling_section_fixed: "is_fixed k \<Longrightarrow> scaling_section r f k = scaling_section r g k"
  unfolding scaling_section_def is_fixed_def
  by (auto simp: section_keys_distinct)

text \<open>
  Claim C8, as amended. In the scaling view the filling, decoration and custom sections
  are drawn with the factor \<open>1\<close>, whatever the computed factor, and only the main and
  the liquid-starter sections are drawn with the computed yield factor. An amount of a
  fixed section that is not a number greater than \<open>0\<close> is shown as it is; a number
  greater than \<open>0\<close> is shown rounded to one decimal place, without a trailing \<open>.0\<close>.
\<close>

theorem fixed_sections_factor_one:
  "shown_amounts (scaling_section r f k)
     = map (\<lambda>ing. scaledAmount ing (if is_scalable k then f else Fin 1)) (section_ingredients r k)
   \<and> (is_fixed k \<longrightarrow> scaling_section r f k = scaling_section r g k)
   \<and> map shown_amounts (scaling_view r tq)
       = map (\<lambda>k. map (\<lambda>ing. scaledAmount ing
                             (if is_scalable k then scalingFactor (Some r) tq else Fin 1))
                     (section_ingredients r k))
           (list_or_empty (sectionsOrder r))
   \<and> (\<not> hasValidAmt ing \<longrightarrow> scaledAmount ing (Fin 1) = render_amount (amount ing))
   \<and> (numericAmt ing = Fin a \<and> 0 < a \<and> a < 10 ^ 21
      \<longrightarrow> scaledAmount ing (Fin 1) = Text (one_decimal a))"
proof (intro conjI impI)
  show "shown_amounts (scaling_section r f k)
     = map (\<lambda>ing. scaledAmount ing (if is_scalable k then f else Fin 1)) (section_ingredients r k)"
    by (rule shown_amounts_scaling_section)
next
  assume "is_fixed k"
  then show "scaling_section r f k = scaling_section r g k"
    by (rule scaling_section_fixed)
next
  show "map shown_amounts (scaling_view r tq)
       = map (\<lambda>k. map (\<lambda>ing. scaledAmount ing
                             (if is_scalable k then scalingFactor (Some r) tq else Fin 1))
                     (section_ingredients r k))
           (list_or_empty (sectionsOrder r))"
    by (cases "sectionsOrder r")
      (simp_all add: scaling_view_def list_or_empty_def shown_amounts_scaling_section comp_def)
next
  assume "\<not> hasValidAmt ing"
  then show "scaledAmount ing (Fin 1) = render_amount (amount ing)"
    by (simp add: scaledAmount_def)
next
  assume a: "numericAmt ing = Fin a \<and> 0 < a \<and> a < 10 ^ 21"
  then have "\<bar>a * 1\<bar> < 10 ^ 21"
    by simp
  with a have "scaledAmount ing (Fin 1) = Text (one_decimal (a * 1))"
    by (intro scaledAmount_valid) simp_all
  then show "scaledAmount ing (Fin 1) = Text (one_decimal a)"
    by simp
qed

lemma one_decimal_more_examples: "one_decimal 420 = utf16 ''420''" "one_decimal 30 = utf16 ''30''"
  by (simp_all add: one_decimal_def tenths_def utf16_def decimal_digits.simps)

theorem fixed_sections_factor_one_witness:
  "map shown_amounts
     (scaling_view
        (recipe_of (Some (Fin 4))
           [ingredient ''flour'' (AmtNumber (Fin 400)) True,
            ingredient ''water'' (AmtNumber (Fin 280)) False]
           [ingredient ''jam'' (AmtNumber (Fin 30)) False])
        (Fin 6))
   = [[], [Text (utf16 ''600''), Text (utf16 ''420'')], [Text (utf16 ''30'')], [], []]"
proof -
  let ?main = "[ingredient ''flour'' (AmtNumber (Fin 400)) True,
                ingredient ''water'' (AmtNumber (Fin 280)) False]"
  let ?fill = "[ingredient ''jam'' (AmtNumber (Fin 30)) False]"
  let ?r = "recipe_of (Some (Fin 4)) ?main ?fill"
  have sf: "scalingFactor (Some ?r) (Fin 6) = Fin (3 / 2)"
    by (simp add: scalingFactor_def recipe_of_def)
  have "scaledAmount (ingredient ''flour'' (AmtNumber (Fin 400)) True) (Fin (3 / 2))
        = Text (one_decimal (400 * (3 / 2)))"
    "scaledAmount (ingredient ''water'' (AmtNumber (Fin 280)) False) (Fin (3 / 2))
        = Text (one_decimal (280 * (3 / 2)))"
    "scaledAmount (ingredient ''jam'' (AmtNumber (Fin 30)) False) (Fin 1)
        = Text (one_decimal (30 * 1))"
    by (rule scaledAmount_valid; simp add: numericAmt_def ingredient_def)+
  then have amounts:
    "scaledAmount (ingredient ''flour'' (AmtNumber (Fin 400)) True) (Fin (3 / 2))
        = Text (utf16 ''600'')"
    "scaledAmount (ingredient ''water'' (AmtNumber (Fin 280)) False) (Fin (3 / 2))
        = Text (utf16 ''420'')"
    "scaledAmount (ingredient ''jam'' (AmtNumber (Fin 30)) False) (Fin 1)
        = Text (utf16 ''30'')"
    by (simp_all add: one_decimal_examples one_decimal_more_examples)
  have "map shown_amounts (scaling_view ?r (Fin 6))
       = map (\<lambda>k. map (\<lambda>ing. scaledAmount ing
                             (if is_scalable k then scalingFactor (Some ?r) (Fin 6) else Fin 1))
                     (section_ingredients ?r k))
           (list_or_empty (sectionsOrder ?r))"
    by (rule fixed_sections_factor_one[THEN conjunct2, THEN conjunct2, THEN conjunct1])
  also have "\<dots> = [[], [Text (utf16 ''600''), Text (utf16 ''420'')], [Text (utf16 ''30'')], [], []]"
    unfolding sf
    by (simp add: recipe_of_def DEFAULT_SECTIONS_ORDER_def list_or_empty_def
        section_ingredients_def is_scalable_def section_keys_distinct amounts)
  finally show ?thesis .
qed

text \<open>
  Claim C8 as stated fails for an amount with more than one decimal place: in the filling
  section the amount \<open>1.26\<close> is shown as \<open>1.3\<close>, not unchanged.
\<close>

theorem fixed_section_amount_rounded:
  "shown_amounts
     (scaling_section
        (recipe_of (Some (Fin 4)) [] [ingredient ''jam'' (AmtString (utf16 ''1.26'')) False])
        (Fin 1.5) (utf16 ''fillingIngredients''))
     = [Text (utf16 ''1.3'')]
   \<and> render_amount (AmtString (utf16 ''1.26'')) = Text (utf16 ''1.26'')
   \<and> utf16 ''1.3'' \<noteq> utf16 ''1.26''"
proof -
  have p: "parseFloat (utf16 ''1.26'') = Fin 1.26"
    by (simp add: parse_defs)
  have "scaledAmount (ingredient ''jam'' (AmtString (utf16 ''1.26'')) False) (Fin 1)
      = Text (one_decimal (1.26 * 1))"
    by (rule scaledAmount_valid) (simp_all add: numericAmt_def ingredient_def p)
  moreover have "one_decimal 1.26 = utf16 ''1.3''"
    by (simp add: one_decimal_def tenths_def utf16_def decimal_digits.simps)
  ultimately show ?thesis
    by (simp add: shown_amounts_scaling_section section_ingredients_def is_scalable_def
        section_keys_distinct recipe_of_def list_or_empty_def render_amount_def)
      (simp add: utf16_def)
qed

text \<open>
  Claim C2, as amended. The yield factor is the target quantity divided by the source
  quantity whenever the source quantity is a number other than \<open>0\<close>, a negative one
  included. It is \<open>1\<close> when the source quantity is \<open>0\<close>, NaN or missing, or when no
  recipe is selected. For equal quantities other than \<open>0\<close> it is \<open>1\<close>.
\<close>

theorem scalingFactor_by_quantity:
  "scalingFactor None tq = Fin 1
   \<and> scalingFactor (Some (r\<lparr>quantity := None\<rparr>)) tq = Fin 1
   \<and> scalingFactor (Some (r\<lparr>quantity := Some NaN\<rparr>)) tq = Fin 1
   \<and> scalingFactor (Some (r\<lparr>quantity := Some (Fin s)\<rparr>)) (Fin t)
       = (if s = 0 then Fin 1 else Fin (t / s))
   \<and> (s \<noteq> 0 \<longrightarrow> scalingFactor (Some (r\<lparr>quantity := Some (Fin s)\<rparr>)) (Fin s) = Fin 1)"
  by (simp add: scalingFactor_def)

theorem scalingFactor_by_quantity_witness:
  "scalingFactor (Some (recipe_of (Some (Fin 4)) [] [])) (Fin 6) = Fin 1.5
   \<and> scalingFactor (Some (recipe_of (Some (Fin 4)) [] [])) (Fin 4) = Fin 1
   \<and> scalingFactor (Some (recipe_of (Some (Fin 0)) [] [])) (Fin 6) = Fin 1"
  using scalingFactor_by_quantity[of "Fin 6" "recipe_of None [] []" 4 6]
    scalingFactor_by_quantity[of "Fin 6" "recipe_of None [] []" 0 6]
  by (simp add: recipe_of_def)

text \<open>
  Claim C2 as stated fails for a negative source quantity: with the source quantity \<open>-2\<close>
  and the target quantity \<open>4\<close> the factor is \<open>-2\<close>, not \<open>1\<close>.
\<close>

theorem scalingFactor_negative_quantity:
  "js_le (Fin (- 2)) (Fin 0)
   \<and> scalingFactor (Some (recipe_of (Some (Fin (- 2))) [] [])) (Fin 4) = Fin (- 2)
   \<and> Fin (- 2) \<noteq> Fin 1"
  by (simp add: scalingFactor_def recipe_of_def js_le_def)

end
